theory Spec2Isabelle
  imports Main "HOL-Library.Word"
begin

section \<open>Data model\<close>

text \<open>
  Go's \<^verbatim>\<open>[]byte\<close>. A nil slice and an empty slice are both the empty list: the code
  never tells them apart.
\<close>

type_synonym bytes = "8 word list"

text \<open>
  Go's \<^verbatim>\<open>error\<close> values as the code makes and compares them: the sentinel
  \<^verbatim>\<open>io.EOF\<close>, \<^verbatim>\<open>errors.New\<close>, \<^verbatim>\<open>errors.Wrap\<close>,
  \<^verbatim>\<open>errors.WithMessage\<close>, and \<open>External\<close> for an error made by a collaborator
  (the stream, the signer, the serializer). A nil error is \<open>None\<close> of \<open>error option\<close>,
  or the \<open>Inr\<close> side of a result.
\<close>

datatype error =
    EOF
  | New string
  | Wrap error string
  | WithMessage error string
  | External string

text \<open>A Go call either returns or panics.\<close>

datatype 'a go = Return 'a | Panic string

text \<open>The header types of the protocol; the code uses \<^verbatim>\<open>cb.HeaderType_DELIVER_SEEK_INFO\<close>.\<close>

datatype HeaderType =
    MESSAGE
  | CONFIG
  | CONFIG_UPDATE
  | ENDORSER_TRANSACTION
  | ORDERER_TRANSACTION
  | DELIVER_SEEK_INFO
  | CHAINCODE_PACKAGE

record ChannelHeader =
  Type :: HeaderType
  Version :: "32 word"
  ChannelId :: string
  Epoch :: "64 word"
  TlsCertHash :: bytes

record SignatureHeader =
  Creator :: bytes
  Nonce :: bytes

record Header =
  channelHeader :: ChannelHeader
  signatureHeader :: SignatureHeader

record Payload =
  Header :: "Header option"
  Data :: bytes

record Envelope =
  Payload :: bytes
  Signature :: bytes

record ConfigSignature =
  SignatureHeaderBytes :: bytes
  SignatureBytes :: bytes

record ConfigUpdateEnvelope =
  ConfigUpdate :: bytes
  Signatures :: "ConfigSignature list"

text \<open>
  The serializer (\<^verbatim>\<open>proto.Marshal\<close>, \<^verbatim>\<open>proto.Unmarshal\<close>) is an external
  capability: one function for each message type the code serializes or parses. \<open>'msg\<close> is
  the type of the message handed to \<^verbatim>\<open>createSignedEnvelope\<close> (the seek specification).
\<close>

record 'msg proto =
  Marshal_Message :: "'msg \<Rightarrow> error + bytes"
  Marshal_SignatureHeader :: "SignatureHeader \<Rightarrow> error + bytes"
  Marshal_Payload :: "Payload \<Rightarrow> error + bytes"
  Marshal_Envelope :: "Envelope \<Rightarrow> error + bytes"
  Marshal_ConfigUpdateEnvelope :: "ConfigUpdateEnvelope \<Rightarrow> error + bytes"
  Unmarshal_Envelope :: "bytes \<Rightarrow> error + Envelope"
  Unmarshal_Payload :: "bytes \<Rightarrow> error + Payload"
  Unmarshal_ConfigUpdateEnvelope :: "bytes \<Rightarrow> error + ConfigUpdateEnvelope"

text \<open>
  The identity and signing context: \<^verbatim>\<open>Identity()\<close>,
  \<^verbatim>\<open>SigningManager().Sign(bytes, key)\<close>, \<^verbatim>\<open>PrivateKey()\<close>.
\<close>

record 'key Context =
  Identity :: "error + bytes"
  Sign :: "bytes \<Rightarrow> 'key \<Rightarrow> error + bytes"
  PrivateKey :: "'key"

text \<open>
  What \<^verbatim>\<open>c.Stream()\<close> holds: nil, a \<^verbatim>\<open>grpc.ClientStream\<close> that is not a
  \<^verbatim>\<open>deliverStream\<close>, or a \<^verbatim>\<open>deliverStream\<close>, given by how the method that the
  caller uses answers (\<open>'s\<close>).
\<close>

datatype 's ClientStream = NilStream | OtherStream | DeliverStream 's

text \<open>
  The connection as \<^verbatim>\<open>Send\<close> reads it. The stream is given by its \<^verbatim>\<open>Send\<close>
  method, which returns an error or nil.
\<close>

record 'key GRPCConnection =
  Closed :: bool
  Stream :: "(Envelope \<Rightarrow> error option) ClientStream"
  ChannelID :: string
  TLSCertHash :: bytes
  Context :: "'key Context"

text \<open>The calls the code makes to its collaborators, in the order it makes them.\<close>

datatype call =
    CallMarshal
  | CallIdentity
  | CallGetRandomNonce
  | CallMarshalPayload
  | CallMarshalSignatureHeader
  | CallSign bytes
  | CallStreamSend Envelope

fun signed :: "call list \<Rightarrow> bytes list" where
  "signed [] = []"
| "signed (CallSign b # cs) = b # signed cs"
| "signed (_ # cs) = signed cs"


section \<open>Helpers of the repository that the sources call\<close>

text \<open>
  Modelled from the spec: \<^verbatim>\<open>utils.MakeChannelHeader\<close> is called by
  \<^verbatim>\<open>createSignedEnvelope\<close> and is not among the sources. The spec: a channel header
  "carries a message-type tag, protocol version, channel identifier, epoch", and the TLS
  certificate fingerprint, which the caller sets afterwards.
\<close>

definition MakeChannelHeader :: "HeaderType \<Rightarrow> 32 word \<Rightarrow> string \<Rightarrow> 64 word \<Rightarrow> ChannelHeader" where
  "MakeChannelHeader headerType version chainID epoch =
     \<lparr>Type = headerType, Version = version, ChannelId = chainID, Epoch = epoch,
      TlsCertHash = []\<rparr>"

text \<open>
  Modelled from the spec: \<^verbatim>\<open>utils.MakePayloadHeader\<close> is not among the sources. The
  spec: the payload is a serialized "{header: {channelHeader, signatureHeader}, data}".
\<close>

definition MakePayloadHeader :: "ChannelHeader \<Rightarrow> SignatureHeader \<Rightarrow> Header" where
  "MakePayloadHeader ch sh = \<lparr>channelHeader = ch, signatureHeader = sh\<rparr>"

text \<open>
  Modelled from the spec: \<^verbatim>\<open>utils.MarshalOrPanic\<close> is not among the sources. The spec
  has the payload serialized at this step; what happens when that fails is fixed by the
  call site, \<^verbatim>\<open>paylBytes := utils.MarshalOrPanic(...)\<close>: the call yields the bytes
  alone, with no error value to test, and the helper's name says that it panics.
\<close>

definition MarshalOrPanic :: "('a \<Rightarrow> error + bytes) \<Rightarrow> 'a \<Rightarrow> bytes go" where
  "MarshalOrPanic marshal pb =
     (case marshal pb of
        Inl err \<Rightarrow> Panic ''marshal failed''
      | Inr data \<Rightarrow> Return data)"

text \<open>
  Modelled from the spec: \<^verbatim>\<open>fcutils.ConcatenateBytes\<close> is not among the sources. The
  spec: the signed bytes are "signatureHeaderBytes || configBytes", the header bytes
  followed by the config bytes.
\<close>

definition ConcatenateBytes :: "bytes list \<Rightarrow> bytes" where
  "ConcatenateBytes data = concat data"

section \<open>The delivery connection (connection.go)\<close>

text \<open>
  \<^verbatim>\<open>deliverStream\<close>: nil when the connection has no stream, a panic when the stream is
  not a \<^verbatim>\<open>deliverStream\<close>, the stream otherwise.
\<close>

definition deliverStream :: "'s ClientStream \<Rightarrow> 's option go" where
  "deliverStream s =
     (case s of
        NilStream \<Rightarrow> Return None
      | OtherStream \<Rightarrow> Panic ''invalid DeliverStream type''
      | DeliverStream stream \<Rightarrow> Return (Some stream))"

text \<open>
  \<^verbatim>\<open>createSignedEnvelope\<close>. \<open>pc\<close> is the serializer and \<open>rnd\<close> what
  \<^verbatim>\<open>crypto.GetRandomNonce()\<close> returns at this call. The result comes with the calls
  made to the collaborators.
\<close>

definition createSignedEnvelope ::
  "'msg proto \<Rightarrow> (error + bytes) \<Rightarrow> 'key GRPCConnection \<Rightarrow> 'msg \<Rightarrow> (error + Envelope) go \<times> call list"
where
  "createSignedEnvelope pc rnd c msg =
     (let msgVersion = 0;
          epoch = 0;
          payloadChannelHeader =
            (MakeChannelHeader DELIVER_SEEK_INFO msgVersion (ChannelID c) epoch)
              \<lparr>TlsCertHash := TLSCertHash c\<rparr>
      in
      case Marshal_Message pc msg of
        Inl err \<Rightarrow> (Return (Inl err), [CallMarshal])
      | Inr data \<Rightarrow>
      (case Identity (Context c) of
        Inl err \<Rightarrow> (Return (Inl err), [CallMarshal, CallIdentity])
      | Inr identity \<Rightarrow>
      (case rnd of
        Inl err \<Rightarrow> (Return (Inl err), [CallMarshal, CallIdentity, CallGetRandomNonce])
      | Inr nonce \<Rightarrow>
      (let payloadSignatureHeader = \<lparr>Creator = identity, Nonce = nonce\<rparr> in
       case MarshalOrPanic (Marshal_Payload pc)
              \<lparr>Header = Some (MakePayloadHeader payloadChannelHeader payloadSignatureHeader),
               Data = data\<rparr> of
        Panic s \<Rightarrow>
          (Panic s, [CallMarshal, CallIdentity, CallGetRandomNonce, CallMarshalPayload])
      | Return paylBytes \<Rightarrow>
      (case Sign (Context c) data (PrivateKey (Context c)) of
        Inl err \<Rightarrow>
          (Return (Inl err),
           [CallMarshal, CallIdentity, CallGetRandomNonce, CallMarshalPayload, CallSign data])
      | Inr signature \<Rightarrow>
          (Return (Inr \<lparr>Payload = paylBytes, Signature = signature\<rparr>),
           [CallMarshal, CallIdentity, CallGetRandomNonce, CallMarshalPayload,
            CallSign data]))))))"

text \<open>
  \<^verbatim>\<open>Send\<close>. The last line is \<^verbatim>\<open>c.deliverStream().Send(env)\<close>: a method call on
  the nil interface that \<^verbatim>\<open>deliverStream\<close> returns for a connection with no stream is
  a nil dereference, which panics.
\<close>

definition Send ::
  "'msg proto \<Rightarrow> (error + bytes) \<Rightarrow> 'key GRPCConnection \<Rightarrow> 'msg \<Rightarrow> error option go \<times> call list"
where
  "Send pc rnd c seekInfo =
     (if Closed c then (Return (Some (New ''connection is closed'')), [])
      else
        case createSignedEnvelope pc rnd c seekInfo of
          (Panic s, calls) \<Rightarrow> (Panic s, calls)
        | (Return (Inl err), calls) \<Rightarrow> (Return (Some err), calls)
        | (Return (Inr env), calls) \<Rightarrow>
            (case deliverStream (Stream c) of
               Panic s \<Rightarrow> (Panic s, calls)
             | Return None \<Rightarrow> (Panic ''invalid memory address or nil pointer dereference'', calls)
             | Return (Some stream) \<Rightarrow> (Return (stream env), calls @ [CallStreamSend env])))"

text \<open>
  \<^verbatim>\<open>Receive\<close>. Each turn of the loop asks the connection for its stream, reads from
  it, and then asks whether the connection is closed; what these answer is up to the
  connection and the peer, and may differ from turn to turn. An \<open>iteration\<close> holds the
  answers of one turn: the stream, given by what its \<^verbatim>\<open>Recv()\<close> returns (the message
  and the error, nil being \<open>None\<close>), and the closed flag as read after \<^verbatim>\<open>Recv()\<close> has
  returned.
\<close>

record 'm iteration =
  StreamNow :: "('m \<times> error option) ClientStream"
  ClosedAfterRecv :: bool

text \<open>What the loop puts on the event channel.\<close>

datatype 'm event = Message 'm | DisconnectedEvent error

text \<open>What the loop does, in order: a read of the stream, a send on the event channel.\<close>

datatype 'm action = StreamRecv | ChanSend "'m event"

text \<open>
  How the loop stands after the iterations it was given: it has left the loop
  (\<open>Exited\<close>), it has panicked, or it is still in the loop, at the top of its next turn
  (\<open>Running\<close>).
\<close>

datatype status = Running | Exited | Panicked string

fun Receive :: "'m iteration list \<Rightarrow> 'm action list \<times> status" where
  "Receive [] = ([], Running)"
| "Receive (it # its) =
     (case deliverStream (StreamNow it) of
        Panic s \<Rightarrow> ([], Panicked s)
      | Return None \<Rightarrow> ([], Exited)
      | Return (Some (inp, err)) \<Rightarrow>
          if ClosedAfterRecv it then ([StreamRecv], Exited)
          else if err = Some EOF then ([StreamRecv], Exited)
          else (case err of
                  Some e \<Rightarrow> ([StreamRecv, ChanSend (DisconnectedEvent e)], Exited)
                | None \<Rightarrow>
                    (case Receive its of
                       (acts, st) \<Rightarrow> (StreamRecv # ChanSend (Message inp) # acts, st))))"

text \<open>The events sent on the channel in a run, and the errors of its disconnected events.\<close>

fun events :: "'m action list \<Rightarrow> 'm event list" where
  "events [] = []"
| "events (ChanSend ev # as) = ev # events as"
| "events (StreamRecv # as) = events as"

fun disconnects :: "'m event list \<Rightarrow> error list" where
  "disconnects [] = []"
| "disconnects (DisconnectedEvent e # evs) = e # disconnects evs"
| "disconnects (Message m # evs) = disconnects evs"

section \<open>Config signatures and config envelopes (package resource)\<close>

text \<open>
  \<^verbatim>\<open>CreateConfigSignature\<close>, with the calls made to the collaborators.
\<close>

definition CreateConfigSignature ::
  "'msg proto \<Rightarrow> (error + bytes) \<Rightarrow> 'key Context \<Rightarrow> bytes \<Rightarrow> (error + ConfigSignature) \<times> call list"
where
  "CreateConfigSignature pc rnd ctx config =
     (case Identity ctx of
        Inl err \<Rightarrow>
          (Inl (WithMessage err ''failed to get user context's identity''), [CallIdentity])
      | Inr creator \<Rightarrow>
      (case rnd of
        Inl err \<Rightarrow>
          (Inl (WithMessage err ''nonce creation failed''), [CallIdentity, CallGetRandomNonce])
      | Inr nonce \<Rightarrow>
      (let signatureHeader = \<lparr>Creator = creator, Nonce = nonce\<rparr> in
       case Marshal_SignatureHeader pc signatureHeader of
        Inl err \<Rightarrow>
          (Inl (Wrap err ''marshal signatureHeader failed''),
           [CallIdentity, CallGetRandomNonce, CallMarshalSignatureHeader])
      | Inr signatureHeaderBytes \<Rightarrow>
      (let signingBytes = ConcatenateBytes [signatureHeaderBytes, config] in
       case Sign ctx signingBytes (PrivateKey ctx) of
        Inl err \<Rightarrow>
          (Inl (WithMessage err ''signing of channel config failed''),
           [CallIdentity, CallGetRandomNonce, CallMarshalSignatureHeader,
            CallSign signingBytes])
      | Inr signature \<Rightarrow>
          (Inr \<lparr>SignatureHeaderBytes = signatureHeaderBytes, SignatureBytes = signature\<rparr>,
           [CallIdentity, CallGetRandomNonce, CallMarshalSignatureHeader,
            CallSign signingBytes])))))"

text \<open>\<^verbatim>\<open>ExtractChannelConfig\<close>: three parses, each on what the one before gave.\<close>

definition ExtractChannelConfig :: "'msg proto \<Rightarrow> bytes \<Rightarrow> error + bytes" where
  "ExtractChannelConfig pc configEnvelope =
     (case Unmarshal_Envelope pc configEnvelope of
        Inl err \<Rightarrow> Inl (Wrap err ''unmarshal config envelope failed'')
      | Inr envelope \<Rightarrow>
      (case Unmarshal_Payload pc (Payload envelope) of
        Inl err \<Rightarrow> Inl (Wrap err ''unmarshal envelope payload failed'')
      | Inr payload \<Rightarrow>
      (case Unmarshal_ConfigUpdateEnvelope pc (Data payload) of
        Inl err \<Rightarrow> Inl (Wrap err ''unmarshal config update envelope'')
      | Inr configUpdateEnvelope \<Rightarrow> Inr (ConfigUpdate configUpdateEnvelope))))"

section \<open>A serializer double and a scenario for concrete runs\<close>

text \<open>
  The serializer is a parameter of every operation, so that what is proved holds for any
  serializer. To run the operations on concrete inputs a serializer is needed; this one
  writes a byte string as a tag byte, a length byte and the bytes (nothing for the empty
  string), and reads a message with one such field. Of the payloads with a header it knows
  the one of the scenario below; it writes any other payload as its data alone.
\<close>

definition put_field :: "8 word \<Rightarrow> bytes \<Rightarrow> bytes" where
  "put_field tag v = (if v = [] then [] else tag # of_nat (length v) # v)"

definition get_field :: "8 word \<Rightarrow> bytes \<Rightarrow> error + bytes" where
  "get_field tag b =
     (case b of
        [] \<Rightarrow> Inr []
      | [t] \<Rightarrow> Inl (External ''unexpected EOF'')
      | t # n # v \<Rightarrow>
          if t = tag \<and> unat n = length v then Inr v else Inl (External ''cannot parse''))"

text \<open>
  The scenario: the seek specification from 5 to 10, which serializes to the bytes 5, 10,
  on the channel "mychannel" with the fingerprint AB CD, the identity 1 and the nonce 2, 3.
\<close>

definition scenario_payload :: Payload where
  "scenario_payload =
     \<lparr>Header = Some
        \<lparr>channelHeader =
           \<lparr>Type = DELIVER_SEEK_INFO, Version = 0, ChannelId = ''mychannel'', Epoch = 0,
            TlsCertHash = [0xAB, 0xCD]\<rparr>,
         signatureHeader = \<lparr>Creator = [1], Nonce = [2, 3]\<rparr>\<rparr>,
      Data = [5, 10]\<rparr>"

definition double :: "(nat \<times> nat) proto" where
  "double =
     \<lparr>Marshal_Message = (\<lambda>(start, stop). Inr [of_nat start, of_nat stop]),
      Marshal_SignatureHeader =
        (\<lambda>sh. Inr (put_field 0x0A (Creator sh) @ put_field 0x12 (Nonce sh))),
      Marshal_Payload =
        (\<lambda>p. if p = scenario_payload then Inr [0xFF]
             else Inr (put_field 0x12 (Data p))),
      Marshal_Envelope =
        (\<lambda>e. Inr (put_field 0x0A (Payload e) @ put_field 0x12 (Signature e))),
      Marshal_ConfigUpdateEnvelope = (\<lambda>u. Inr (put_field 0x0A (ConfigUpdate u))),
      Unmarshal_Envelope =
        (\<lambda>b. case get_field 0x0A b of
               Inl err \<Rightarrow> Inl err
             | Inr v \<Rightarrow> Inr \<lparr>Payload = v, Signature = []\<rparr>),
      Unmarshal_Payload =
        (\<lambda>b. if b = [0xFF] then Inr scenario_payload
             else case get_field 0x12 b of
               Inl err \<Rightarrow> Inl err
             | Inr v \<Rightarrow> Inr \<lparr>Header = None, Data = v\<rparr>),
      Unmarshal_ConfigUpdateEnvelope =
        (\<lambda>b. case get_field 0x0A b of
               Inl err \<Rightarrow> Inl err
             | Inr v \<Rightarrow> Inr \<lparr>ConfigUpdate = v, Signatures = []\<rparr>)\<rparr>"


definition scenario_context :: "nat Context" where
  "scenario_context = \<lparr>Identity = Inr [1], Sign = (\<lambda>b k. Inr (rev b)), PrivateKey = 7\<rparr>"


definition scenario_connection :: "nat GRPCConnection" where
  "scenario_connection =
     \<lparr>Closed = False, Stream = DeliverStream (\<lambda>env. None), ChannelID = ''mychannel'',
      TLSCertHash = [0xAB, 0xCD], Context = scenario_context\<rparr>"

text \<open>Iterations of the receive loop for concrete runs.\<close>

definition it_message :: "nat \<Rightarrow> nat iteration" where
  "it_message m = \<lparr>StreamNow = DeliverStream (m, None), ClosedAfterRecv = False\<rparr>"

definition it_error_closed :: "nat iteration" where
  "it_error_closed =
     \<lparr>StreamNow = DeliverStream (0, Some (External ''transport is closing'')),
      ClosedAfterRecv = True\<rparr>"

definition it_error :: "nat iteration" where
  "it_error =
     \<lparr>StreamNow = DeliverStream (0, Some (External ''transport is closing'')),
      ClosedAfterRecv = False\<rparr>"

definition it_EOF :: "nat iteration" where
  "it_EOF = \<lparr>StreamNow = DeliverStream (0, Some EOF), ClosedAfterRecv = False\<rparr>"


section \<open>How the operations run\<close>

lemmas scenario_defs =
  double_def scenario_payload_def scenario_context_def scenario_connection_def
  put_field_def get_field_def

subsection \<open>The envelope builder and \<^verbatim>\<open>Send\<close>\<close>

lemma createSignedEnvelope_run:
  "Marshal_Message pc msg = Inr data \<Longrightarrow> Identity (Context c) = Inr identity \<Longrightarrow>
   rnd = Inr nonce \<Longrightarrow>
   Marshal_Payload pc
     \<lparr>Header = Some (MakePayloadHeader
        ((MakeChannelHeader DELIVER_SEEK_INFO 0 (ChannelID c) 0)
           \<lparr>TlsCertHash := TLSCertHash c\<rparr>)
        \<lparr>Creator = identity, Nonce = nonce\<rparr>),
      Data = data\<rparr> = Inr pb \<Longrightarrow>
   createSignedEnvelope pc rnd c msg =
     (case Sign (Context c) data (PrivateKey (Context c)) of
        Inl err \<Rightarrow> Return (Inl err)
      | Inr sig \<Rightarrow> Return (Inr \<lparr>Payload = pb, Signature = sig\<rparr>),
      [CallMarshal, CallIdentity, CallGetRandomNonce, CallMarshalPayload, CallSign data])"
  by (simp add: createSignedEnvelope_def MarshalOrPanic_def Let_def split: sum.split)





subsection \<open>The config signature builder\<close>

lemma CreateConfigSignature_run:
  "Identity ctx = Inr creator \<Longrightarrow> rnd = Inr nonce \<Longrightarrow>
   Marshal_SignatureHeader pc \<lparr>Creator = creator, Nonce = nonce\<rparr> = Inr hb \<Longrightarrow>
   CreateConfigSignature pc rnd ctx config =
     (case Sign ctx (hb @ config) (PrivateKey ctx) of
        Inl err \<Rightarrow> Inl (WithMessage err ''signing of channel config failed'')
      | Inr sig \<Rightarrow> Inr \<lparr>SignatureHeaderBytes = hb, SignatureBytes = sig\<rparr>,
      [CallIdentity, CallGetRandomNonce, CallMarshalSignatureHeader, CallSign (hb @ config)])"
  by (simp add: CreateConfigSignature_def ConcatenateBytes_def Let_def split: sum.split)


subsection \<open>The receive loop, one turn at a time\<close>

lemma Receive_Nil_stream:
  "StreamNow it = NilStream \<Longrightarrow> Receive (it # its) = ([], Exited)"
  by (simp add: deliverStream_def)

lemma Receive_Other_stream:
  "StreamNow it = OtherStream \<Longrightarrow>
   Receive (it # its) = ([], Panicked ''invalid DeliverStream type'')"
  by (simp add: deliverStream_def)

lemma Receive_closed:
  "StreamNow it = DeliverStream r \<Longrightarrow> ClosedAfterRecv it \<Longrightarrow>
   Receive (it # its) = ([StreamRecv], Exited)"
  by (cases r) (simp add: deliverStream_def)

lemma Receive_EOF:
  "StreamNow it = DeliverStream (inp, Some EOF) \<Longrightarrow> \<not> ClosedAfterRecv it \<Longrightarrow>
   Receive (it # its) = ([StreamRecv], Exited)"
  by (simp add: deliverStream_def)

lemma Receive_error:
  "StreamNow it = DeliverStream (inp, Some e) \<Longrightarrow> \<not> ClosedAfterRecv it \<Longrightarrow> e \<noteq> EOF \<Longrightarrow>
   Receive (it # its) = ([StreamRecv, ChanSend (DisconnectedEvent e)], Exited)"
  by (simp add: deliverStream_def)

lemma Receive_message:
  "StreamNow it = DeliverStream (inp, None) \<Longrightarrow> \<not> ClosedAfterRecv it \<Longrightarrow>
   Receive (it # its) =
     (StreamRecv # ChanSend (Message inp) # fst (Receive its), snd (Receive its))"
  by (simp add: deliverStream_def split: prod.split)

lemmas Receive_step =
  Receive_Nil_stream Receive_Other_stream Receive_closed Receive_EOF Receive_error
  Receive_message

lemma Receive_Cons_cases:
  obtains "StreamNow it = NilStream"
  | "StreamNow it = OtherStream"
  | r where "StreamNow it = DeliverStream r" "ClosedAfterRecv it"
  | inp where "StreamNow it = DeliverStream (inp, Some EOF)" "\<not> ClosedAfterRecv it"
  | inp e where "StreamNow it = DeliverStream (inp, Some e)" "\<not> ClosedAfterRecv it" "e \<noteq> EOF"
  | inp where "StreamNow it = DeliverStream (inp, None)" "\<not> ClosedAfterRecv it"
proof (cases "StreamNow it")
  case NilStream
  then show ?thesis using that by blast
next
  case OtherStream
  then show ?thesis using that by blast
next
  case (DeliverStream r)
  obtain inp err where "r = (inp, err)" by (cases r)
  with DeliverStream show ?thesis
    using that by (cases "ClosedAfterRecv it"; cases err) metis+
qed

lemma mem_disconnects: "d \<in> set (disconnects evs) \<Longrightarrow> DisconnectedEvent d \<in> set evs"
  by (induction evs rule: disconnects.induct) auto

lemma mem_events: "ev \<in> set (events as) \<Longrightarrow> ChanSend ev \<in> set as"
  by (induction as rule: events.induct) auto

lemma Receive_append:
  "snd (Receive pre) = Running \<Longrightarrow>
   Receive (pre @ rest) = (fst (Receive pre) @ fst (Receive rest), snd (Receive rest))"
proof (induction pre)
  case Nil
  then show ?case by simp
next
  case (Cons it pre)
  then show ?case
    by (cases it rule: Receive_Cons_cases) (simp_all add: Receive_step del: Receive.simps(2))
qed

lemma Receive_Running_no_disconnect:
  "snd (Receive pre) = Running \<Longrightarrow> disconnects (events (fst (Receive pre))) = []"
proof (induction pre)
  case Nil
  then show ?case by simp
next
  case (Cons it pre)
  then show ?case
    by (cases it rule: Receive_Cons_cases) (simp_all add: Receive_step del: Receive.simps(2))
qed

lemma events_append: "events (xs @ ys) = events xs @ events ys"
  by (induction xs rule: events.induct) simp_all

lemma disconnects_append: "disconnects (xs @ ys) = disconnects xs @ disconnects ys"
  by (induction xs rule: disconnects.induct) simp_all

lemma Receive_disconnect_origin:
  "ChanSend (DisconnectedEvent e) \<in> set (fst (Receive its)) \<Longrightarrow>
   \<exists>pre inp rest.
     its = pre @ \<lparr>StreamNow = DeliverStream (inp, Some e), ClosedAfterRecv = False\<rparr> # rest \<and>
     snd (Receive pre) = Running \<and> e \<noteq> EOF"
proof (induction its)
  case Nil
  then show ?case by simp
next
  case (Cons it its)
  show ?case
  proof (cases it rule: Receive_Cons_cases)
    case 1
    with Cons.prems show ?thesis by (simp add: Receive_step del: Receive.simps(2))
  next
    case 2
    with Cons.prems show ?thesis by (simp add: Receive_step del: Receive.simps(2))
  next
    case (3 r)
    with Cons.prems show ?thesis by (simp add: Receive_step del: Receive.simps(2))
  next
    case (4 inp)
    with Cons.prems show ?thesis by (simp add: Receive_step del: Receive.simps(2))
  next
    case (5 inp e')
    with Cons.prems have "e' = e"
      by (simp add: Receive_step del: Receive.simps(2))
    with 5 have "it = \<lparr>StreamNow = DeliverStream (inp, Some e), ClosedAfterRecv = False\<rparr>"
      by simp
    then have "it # its =
        [] @ \<lparr>StreamNow = DeliverStream (inp, Some e), ClosedAfterRecv = False\<rparr> # its"
      by simp
    moreover have "snd (Receive ([] :: 'a iteration list)) = Running" by simp
    moreover from 5 \<open>e' = e\<close> have "e \<noteq> EOF" by simp
    ultimately show ?thesis by blast
  next
    case (6 inp)
    with Cons.prems have "ChanSend (DisconnectedEvent e) \<in> set (fst (Receive its))"
      by (simp add: Receive_step del: Receive.simps(2))
    from Cons.IH [OF this] obtain pre inp' rest where
      its: "its = pre @ \<lparr>StreamNow = DeliverStream (inp', Some e), ClosedAfterRecv = False\<rparr> # rest"
      and run: "snd (Receive pre) = Running" and ne: "e \<noteq> EOF"
      by blast
    from run 6 have "snd (Receive (it # pre)) = Running"
      by (simp add: Receive_step del: Receive.simps(2))
    moreover from its have "it # its =
        (it # pre) @ \<lparr>StreamNow = DeliverStream (inp', Some e), ClosedAfterRecv = False\<rparr> # rest"
      by simp
    ultimately show ?thesis using ne by blast
  qed
qed

lemma Receive_disconnect_step:
  assumes "snd (Receive pre) = Running" "e \<noteq> EOF"
  shows "Receive (pre @ \<lparr>StreamNow = DeliverStream (inp, Some e), ClosedAfterRecv = False\<rparr> # rest) =
           (fst (Receive pre) @ [StreamRecv, ChanSend (DisconnectedEvent e)], Exited)"
  using assms by (simp add: Receive_append Receive_error del: Receive.simps(2))

lemma sorted_False: "sorted (cls @ [False]) \<Longrightarrow> c \<in> set cls \<Longrightarrow> \<not> c"
  by (auto simp: sorted_append)

lemma Receive_messages:
  "length cls = length ms \<Longrightarrow> \<forall>c \<in> set cls. \<not> c \<Longrightarrow>
   Receive (map (\<lambda>(m, cl). \<lparr>StreamNow = DeliverStream (m, None), ClosedAfterRecv = cl\<rparr>)
              (zip ms cls) @ rest) =
     (concat (map (\<lambda>m. [StreamRecv, ChanSend (Message m)]) ms) @ fst (Receive rest),
      snd (Receive rest))"
proof (induction ms arbitrary: cls)
  case Nil
  then show ?case by simp
next
  case (Cons m ms)
  from Cons.prems obtain c cls' where cls: "cls = c # cls'"
    by (cases cls) auto
  with Cons.prems have "length cls' = length ms" and "\<forall>c \<in> set cls'. \<not> c" and "\<not> c"
    by auto
  from Cons.IH [OF this(1, 2)] cls \<open>\<not> c\<close> show ?case
    by (simp add: Receive_message del: Receive.simps(2))
qed


section \<open>The two signing scopes\<close>

text \<open>
  C1: in every run, whatever \<^verbatim>\<open>createSignedEnvelope\<close> hands to the signer is the
  serialized message (the inner data, not the payload bytes), and the signature of an
  envelope it returns is what the signer gives for those bytes, signed once. When the
  message, the identity and the nonce are obtained and the payload serializer does not
  fail, the builder calls the signer once, on the serialized message, and returns the
  signer's error or the envelope with the signer's signature of those bytes.
  In every run, whatever \<^verbatim>\<open>CreateConfigSignature\<close> hands to the signer is the serialized
  signature header followed by the config bytes, and the signature it returns is what the
  signer gives for the returned header bytes followed by the config bytes, signed once;
  with a non-empty header that differs from signing the config bytes alone. When the
  identity and the nonce are obtained and the signature header serializes to \<open>hb\<close>, it
  calls the signer once, on \<open>hb\<close> followed by the config bytes, and returns the signer's
  error, wrapped, or the header bytes with the signer's signature of those bytes.
\<close>

theorem signing_scopes:
  "(\<forall>b \<in> set (signed (snd (createSignedEnvelope pc rnd c msg))). Marshal_Message pc msg = Inr b) \<and>
   (\<forall>env. fst (createSignedEnvelope pc rnd c msg) = Return (Inr env) \<longrightarrow>
      (\<exists>data. Marshal_Message pc msg = Inr data \<and>
         Sign (Context c) data (PrivateKey (Context c)) = Inr (Signature env) \<and>
         signed (snd (createSignedEnvelope pc rnd c msg)) = [data])) \<and>
   (Marshal_Message pc msg = Inr data \<and> Identity (Context c) = Inr identity \<and>
    rnd = Inr nonce \<and> (\<forall>p. \<exists>pb. Marshal_Payload pc p = Inr pb) \<longrightarrow>
      signed (snd (createSignedEnvelope pc rnd c msg)) = [data] \<and>
      (\<exists>pb. fst (createSignedEnvelope pc rnd c msg) =
         (case Sign (Context c) data (PrivateKey (Context c)) of
            Inl err \<Rightarrow> Return (Inl err)
          | Inr sig \<Rightarrow> Return (Inr \<lparr>Payload = pb, Signature = sig\<rparr>)))) \<and>
   (\<forall>b \<in> set (signed (snd (CreateConfigSignature pc' rnd' ctx config))).
      \<exists>creator nonce hb. Identity ctx = Inr creator \<and> rnd' = Inr nonce \<and>
         Marshal_SignatureHeader pc' \<lparr>Creator = creator, Nonce = nonce\<rparr> = Inr hb \<and>
         b = hb @ config) \<and>
   (\<forall>cs. fst (CreateConfigSignature pc' rnd' ctx config) = Inr cs \<longrightarrow>
      Sign ctx (SignatureHeaderBytes cs @ config) (PrivateKey ctx) = Inr (SignatureBytes cs) \<and>
      signed (snd (CreateConfigSignature pc' rnd' ctx config)) =
        [SignatureHeaderBytes cs @ config] \<and>
      (SignatureHeaderBytes cs \<noteq> [] \<longrightarrow>
         signed (snd (CreateConfigSignature pc' rnd' ctx config)) \<noteq> [config])) \<and>
   (Identity ctx = Inr creator' \<and> rnd' = Inr nonce' \<and>
    Marshal_SignatureHeader pc' \<lparr>Creator = creator', Nonce = nonce'\<rparr> = Inr hb \<longrightarrow>
      signed (snd (CreateConfigSignature pc' rnd' ctx config)) = [hb @ config] \<and>
      fst (CreateConfigSignature pc' rnd' ctx config) =
        (case Sign ctx (hb @ config) (PrivateKey ctx) of
           Inl err \<Rightarrow> Inl (WithMessage err ''signing of channel config failed'')
         | Inr sig \<Rightarrow> Inr \<lparr>SignatureHeaderBytes = hb, SignatureBytes = sig\<rparr>))"
proof (intro conjI)
  show "\<forall>b \<in> set (signed (snd (createSignedEnvelope pc rnd c msg))).
          Marshal_Message pc msg = Inr b"
    by (simp add: createSignedEnvelope_def Let_def split: sum.split go.split)
  show "\<forall>env. fst (createSignedEnvelope pc rnd c msg) = Return (Inr env) \<longrightarrow>
      (\<exists>data. Marshal_Message pc msg = Inr data \<and>
         Sign (Context c) data (PrivateKey (Context c)) = Inr (Signature env) \<and>
         signed (snd (createSignedEnvelope pc rnd c msg)) = [data])"
    by (auto simp: createSignedEnvelope_def Let_def split: sum.split go.split)
  show "Marshal_Message pc msg = Inr data \<and> Identity (Context c) = Inr identity \<and>
    rnd = Inr nonce \<and> (\<forall>p. \<exists>pb. Marshal_Payload pc p = Inr pb) \<longrightarrow>
      signed (snd (createSignedEnvelope pc rnd c msg)) = [data] \<and>
      (\<exists>pb. fst (createSignedEnvelope pc rnd c msg) =
         (case Sign (Context c) data (PrivateKey (Context c)) of
            Inl err \<Rightarrow> Return (Inl err)
          | Inr sig \<Rightarrow> Return (Inr \<lparr>Payload = pb, Signature = sig\<rparr>)))"
  proof
    assume a: "Marshal_Message pc msg = Inr data \<and> Identity (Context c) = Inr identity \<and>
      rnd = Inr nonce \<and> (\<forall>p. \<exists>pb. Marshal_Payload pc p = Inr pb)"
    then obtain pb where "Marshal_Payload pc
       \<lparr>Header = Some (MakePayloadHeader
          ((MakeChannelHeader DELIVER_SEEK_INFO 0 (ChannelID c) 0)
             \<lparr>TlsCertHash := TLSCertHash c\<rparr>)
          \<lparr>Creator = identity, Nonce = nonce\<rparr>),
        Data = data\<rparr> = Inr pb"
      by blast
    with a have "createSignedEnvelope pc rnd c msg =
       (case Sign (Context c) data (PrivateKey (Context c)) of
          Inl err \<Rightarrow> Return (Inl err)
        | Inr sig \<Rightarrow> Return (Inr \<lparr>Payload = pb, Signature = sig\<rparr>),
        [CallMarshal, CallIdentity, CallGetRandomNonce, CallMarshalPayload, CallSign data])"
      by (simp add: createSignedEnvelope_run)
    then show "signed (snd (createSignedEnvelope pc rnd c msg)) = [data] \<and>
      (\<exists>pb. fst (createSignedEnvelope pc rnd c msg) =
         (case Sign (Context c) data (PrivateKey (Context c)) of
            Inl err \<Rightarrow> Return (Inl err)
          | Inr sig \<Rightarrow> Return (Inr \<lparr>Payload = pb, Signature = sig\<rparr>)))"
      by auto
  qed
  show "\<forall>b \<in> set (signed (snd (CreateConfigSignature pc' rnd' ctx config))).
      \<exists>creator nonce hb. Identity ctx = Inr creator \<and> rnd' = Inr nonce \<and>
         Marshal_SignatureHeader pc' \<lparr>Creator = creator, Nonce = nonce\<rparr> = Inr hb \<and>
         b = hb @ config"
    by (simp add: CreateConfigSignature_def ConcatenateBytes_def Let_def split: sum.split)
  show "\<forall>cs. fst (CreateConfigSignature pc' rnd' ctx config) = Inr cs \<longrightarrow>
      Sign ctx (SignatureHeaderBytes cs @ config) (PrivateKey ctx) = Inr (SignatureBytes cs) \<and>
      signed (snd (CreateConfigSignature pc' rnd' ctx config)) =
        [SignatureHeaderBytes cs @ config] \<and>
      (SignatureHeaderBytes cs \<noteq> [] \<longrightarrow>
         signed (snd (CreateConfigSignature pc' rnd' ctx config)) \<noteq> [config])"
    by (auto simp: CreateConfigSignature_def ConcatenateBytes_def Let_def split: sum.split)
  show "Identity ctx = Inr creator' \<and> rnd' = Inr nonce' \<and>
    Marshal_SignatureHeader pc' \<lparr>Creator = creator', Nonce = nonce'\<rparr> = Inr hb \<longrightarrow>
      signed (snd (CreateConfigSignature pc' rnd' ctx config)) = [hb @ config] \<and>
      fst (CreateConfigSignature pc' rnd' ctx config) =
        (case Sign ctx (hb @ config) (PrivateKey ctx) of
           Inl err \<Rightarrow> Inl (WithMessage err ''signing of channel config failed'')
         | Inr sig \<Rightarrow> Inr \<lparr>SignatureHeaderBytes = hb, SignatureBytes = sig\<rparr>)"
    by (simp add: CreateConfigSignature_run)
qed


theorem signing_scopes_witness:
  "fst (createSignedEnvelope double (Inr [2, 3]) scenario_connection (5, 10)) =
     Return (Inr \<lparr>Payload = [0xFF], Signature = [10, 5]\<rparr>) \<and>
   Sign (Context scenario_connection) [5, 10] (PrivateKey (Context scenario_connection)) =
     Inr [10, 5] \<and>
   signed (snd (createSignedEnvelope double (Inr [2, 3]) scenario_connection (5, 10))) =
     [[5, 10]] \<and>
   fst (CreateConfigSignature double (Inr [2, 3]) scenario_context [9, 9]) =
     Inr \<lparr>SignatureHeaderBytes = [0x0A, 1, 1, 0x12, 2, 2, 3],
          SignatureBytes = [9, 9, 3, 2, 2, 0x12, 1, 1, 0x0A]\<rparr> \<and>
   Sign scenario_context ([0x0A, 1, 1, 0x12, 2, 2, 3] @ [9, 9]) (PrivateKey scenario_context) =
     Inr [9, 9, 3, 2, 2, 0x12, 1, 1, 0x0A] \<and>
   signed (snd (CreateConfigSignature double (Inr [2, 3]) scenario_context [9, 9])) =
     [[0x0A, 1, 1, 0x12, 2, 2, 3, 9, 9]] \<and>
   signed (snd (CreateConfigSignature double (Inr [2, 3]) scenario_context [9, 9])) \<noteq>
     [[9, 9]]"
proof -
  note t = signing_scopes [where pc = double and rnd = "Inr [2, 3]" and c = scenario_connection
      and msg = "(5, 10)" and data = "[5, 10]" and identity = "[1]" and nonce = "[2, 3]"
      and pc' = double and rnd' = "Inr [2, 3]" and ctx = scenario_context and config = "[9, 9]"
      and creator' = "[1]" and nonce' = "[2, 3]" and hb = "[0x0A, 1, 1, 0x12, 2, 2, 3]"]
  have e: "fst (createSignedEnvelope double (Inr [2, 3]) scenario_connection (5, 10)) =
     Return (Inr \<lparr>Payload = [0xFF], Signature = [10, 5]\<rparr>)"
    by (simp add: createSignedEnvelope_def MakeChannelHeader_def MakePayloadHeader_def
        MarshalOrPanic_def scenario_defs)
  have h1: "Marshal_Message double (5, 10) = Inr [5, 10] \<and>
      Identity (Context scenario_connection) = Inr [1] \<and>
      (Inr [2, 3] :: error + bytes) = Inr [2, 3] \<and>
      (\<forall>p. \<exists>pb. Marshal_Payload double p = Inr pb)"
    by (simp add: scenario_defs)
  with t [THEN conjunct2, THEN conjunct2, THEN conjunct1]
  have 1: "signed (snd (createSignedEnvelope double (Inr [2, 3]) scenario_connection
      (5, 10))) = [[5, 10]]"
    by blast
  from e t [THEN conjunct2, THEN conjunct1]
  have "\<exists>data. Marshal_Message double (5, 10) = Inr data \<and>
      Sign (Context scenario_connection) data (PrivateKey (Context scenario_connection)) =
        Inr (Signature \<lparr>Payload = [0xFF], Signature = [10, 5]\<rparr>)"
    by blast
  with h1 have 2: "Sign (Context scenario_connection) [5, 10]
      (PrivateKey (Context scenario_connection)) = Inr [10, 5]"
    by auto
  have h2: "Identity scenario_context = Inr [1] \<and>
      (Inr [2, 3] :: error + bytes) = Inr [2, 3] \<and>
      Marshal_SignatureHeader double \<lparr>Creator = [1], Nonce = [2, 3]\<rparr> =
        Inr [0x0A, 1, 1, 0x12, 2, 2, 3]"
    by (simp add: scenario_defs)
  with t [THEN conjunct2, THEN conjunct2, THEN conjunct2, THEN conjunct2, THEN conjunct2]
  have 3: "signed (snd (CreateConfigSignature double (Inr [2, 3]) scenario_context [9, 9])) =
      [[0x0A, 1, 1, 0x12, 2, 2, 3] @ [9, 9]]"
    by blast
  have s: "fst (CreateConfigSignature double (Inr [2, 3]) scenario_context [9, 9]) =
     Inr \<lparr>SignatureHeaderBytes = [0x0A, 1, 1, 0x12, 2, 2, 3],
          SignatureBytes = [9, 9, 3, 2, 2, 0x12, 1, 1, 0x0A]\<rparr>"
    by (simp add: CreateConfigSignature_def ConcatenateBytes_def scenario_defs)
  with t [THEN conjunct2, THEN conjunct2, THEN conjunct2, THEN conjunct2, THEN conjunct1]
  have 4: "Sign scenario_context ([0x0A, 1, 1, 0x12, 2, 2, 3] @ [9, 9])
      (PrivateKey scenario_context) = Inr [9, 9, 3, 2, 2, 0x12, 1, 1, 0x0A]"
    by auto
  from 3 have 5: "signed (snd (CreateConfigSignature double (Inr [2, 3]) scenario_context
      [9, 9])) = [[0x0A, 1, 1, 0x12, 2, 2, 3, 9, 9]]"
    by simp
  from 5 have 6: "signed (snd (CreateConfigSignature double (Inr [2, 3]) scenario_context
      [9, 9])) \<noteq> [[9, 9]]"
    by simp
  from e 1 2 s 4 5 6 show ?thesis
    by blast
qed

section \<open>Panics\<close>

text \<open>
  \<^verbatim>\<open>Send\<close> on a connection that is not closed and has no stream: the envelope is built
  and signed, \<^verbatim>\<open>deliverStream\<close> returns nil, and the call of \<^verbatim>\<open>Send\<close> on that nil
  panics. \<^verbatim>\<open>Receive\<close> tests for the nil stream; \<^verbatim>\<open>Send\<close> does not.
\<close>

lemma Send_nil_stream:
  "Send double (Inr [2, 3]) (scenario_connection\<lparr>Stream := NilStream\<rparr>) (5, 10) =
     (Panic ''invalid memory address or nil pointer dereference'',
      [CallMarshal, CallIdentity, CallGetRandomNonce, CallMarshalPayload, CallSign [5, 10]])"
  by (simp add: Send_def createSignedEnvelope_def MakeChannelHeader_def MakePayloadHeader_def
        MarshalOrPanic_def deliverStream_def scenario_defs)





section \<open>The receive loop\<close>

text \<open>
  C3: in a turn that the loop reaches (it is still running after the turns before), when
  the closed flag is read true after the read has returned, the loop exits; the turn adds
  the read and nothing else, so no event is sent for it, whatever the read returned
  (a message, end of stream, or an error), and later turns are not run.
\<close>

theorem Receive_closed_after_read:
  assumes "snd (Receive pre) = Running"
    and "StreamNow it = DeliverStream r"
    and "ClosedAfterRecv it"
  shows "Receive (pre @ it # rest) = (fst (Receive pre) @ [StreamRecv], Exited) \<and>
         events (fst (Receive (pre @ it # rest))) = events (fst (Receive pre))"
  using assms
  by (simp add: Receive_append Receive_closed events_append del: Receive.simps(2))

theorem Receive_closed_after_read_witness:
  "snd (Receive [it_message 1]) = Running \<and>
   StreamNow it_error_closed = DeliverStream (0, Some (External ''transport is closing'')) \<and>
   ClosedAfterRecv it_error_closed \<and>
   Receive ([it_message 1] @ it_error_closed # [it_message 2]) =
     ([StreamRecv, ChanSend (Message 1), StreamRecv], Exited)"
proof -
  have 1: "snd (Receive [it_message 1]) = Running"
    by (simp add: it_message_def deliverStream_def)
  have 2: "StreamNow it_error_closed = DeliverStream (0, Some (External ''transport is closing''))"
    by (simp add: it_error_closed_def)
  have 3: "ClosedAfterRecv it_error_closed"
    by (simp add: it_error_closed_def)
  have 4: "fst (Receive [it_message 1]) = [StreamRecv, ChanSend (Message 1)]"
    by (simp add: it_message_def deliverStream_def)
  from Receive_closed_after_read [OF 1 2 3, of "[it_message 2]"] 4
  have "Receive ([it_message 1] @ it_error_closed # [it_message 2]) =
     ([StreamRecv, ChanSend (Message 1), StreamRecv], Exited)"
    by simp
  with 1 2 3 show ?thesis by blast
qed

text \<open>
  A read that returns an error other than end of stream, with the closed flag read true
  afterwards: the loop exits and sends no disconnected event.
\<close>

theorem Receive_error_after_close_counterexample:
  "StreamNow it_error_closed = DeliverStream (0, Some (External ''transport is closing'')) \<and>
   External ''transport is closing'' \<noteq> EOF \<and>
   Receive [it_error_closed] = ([StreamRecv], Exited)"
  by (simp add: it_error_closed_def deliverStream_def)

text \<open>
  C4 (amended): a run of the receive loop sends at most one disconnected event. It sends
  the disconnected event carrying \<open>e\<close> exactly when, in a turn that the loop reaches, the
  read returns the error \<open>e\<close>, \<open>e\<close> is not end of stream, and the closed flag is read
  false after that read. When it does, the read of that turn and the event are the last
  things the loop does, no disconnected event comes before, and the loop has exited.
\<close>

theorem Receive_disconnected_event:
  "length (disconnects (events (fst (Receive its)))) \<le> 1 \<and>
   (ChanSend (DisconnectedEvent e) \<in> set (fst (Receive its)) \<longleftrightarrow>
      (\<exists>pre inp rest.
         its = pre @ \<lparr>StreamNow = DeliverStream (inp, Some e), ClosedAfterRecv = False\<rparr> # rest \<and>
         snd (Receive pre) = Running \<and> e \<noteq> EOF)) \<and>
   (ChanSend (DisconnectedEvent e) \<in> set (fst (Receive its)) \<longrightarrow>
      snd (Receive its) = Exited \<and>
      (\<exists>acts. fst (Receive its) = acts @ [StreamRecv, ChanSend (DisconnectedEvent e)] \<and>
         disconnects (events acts) = []))"
proof (intro conjI)
  show "length (disconnects (events (fst (Receive its)))) \<le> 1"
  proof (cases "disconnects (events (fst (Receive its)))")
    case Nil
    then show ?thesis by simp
  next
    case (Cons e' es)
    from Cons have "e' \<in> set (disconnects (events (fst (Receive its))))" by simp
    then have "ChanSend (DisconnectedEvent e') \<in> set (fst (Receive its))"
      by (simp add: mem_disconnects mem_events)
    from Receive_disconnect_origin [OF this] obtain pre inp rest where
      "its = pre @ \<lparr>StreamNow = DeliverStream (inp, Some e'), ClosedAfterRecv = False\<rparr> # rest"
      "snd (Receive pre) = Running" "e' \<noteq> EOF"
      by blast
    then show ?thesis
      by (simp add: Receive_disconnect_step events_append disconnects_append
          Receive_Running_no_disconnect)
  qed
  show "ChanSend (DisconnectedEvent e) \<in> set (fst (Receive its)) \<longleftrightarrow>
      (\<exists>pre inp rest.
         its = pre @ \<lparr>StreamNow = DeliverStream (inp, Some e), ClosedAfterRecv = False\<rparr> # rest \<and>
         snd (Receive pre) = Running \<and> e \<noteq> EOF)"
  proof
    assume "ChanSend (DisconnectedEvent e) \<in> set (fst (Receive its))"
    then show "\<exists>pre inp rest.
         its = pre @ \<lparr>StreamNow = DeliverStream (inp, Some e), ClosedAfterRecv = False\<rparr> # rest \<and>
         snd (Receive pre) = Running \<and> e \<noteq> EOF"
      by (rule Receive_disconnect_origin)
  next
    assume "\<exists>pre inp rest.
         its = pre @ \<lparr>StreamNow = DeliverStream (inp, Some e), ClosedAfterRecv = False\<rparr> # rest \<and>
         snd (Receive pre) = Running \<and> e \<noteq> EOF"
    then show "ChanSend (DisconnectedEvent e) \<in> set (fst (Receive its))"
      by (auto simp: Receive_disconnect_step)
  qed
  show "ChanSend (DisconnectedEvent e) \<in> set (fst (Receive its)) \<longrightarrow>
      snd (Receive its) = Exited \<and>
      (\<exists>acts. fst (Receive its) = acts @ [StreamRecv, ChanSend (DisconnectedEvent e)] \<and>
         disconnects (events acts) = [])"
  proof
    assume "ChanSend (DisconnectedEvent e) \<in> set (fst (Receive its))"
    from Receive_disconnect_origin [OF this] obtain pre inp rest where
      "its = pre @ \<lparr>StreamNow = DeliverStream (inp, Some e), ClosedAfterRecv = False\<rparr> # rest"
      "snd (Receive pre) = Running" "e \<noteq> EOF"
      by blast
    then show "snd (Receive its) = Exited \<and>
      (\<exists>acts. fst (Receive its) = acts @ [StreamRecv, ChanSend (DisconnectedEvent e)] \<and>
         disconnects (events acts) = [])"
      by (simp add: Receive_disconnect_step Receive_Running_no_disconnect)
  qed
qed

theorem Receive_disconnected_event_witness:
  "ChanSend (DisconnectedEvent (External ''transport is closing'')) \<in>
     set (fst (Receive [it_message 1, it_error, it_message 2])) \<and>
   snd (Receive [it_message 1, it_error, it_message 2]) = Exited \<and>
   length (disconnects (events (fst (Receive [it_message 1, it_error, it_message 2])))) \<le> 1"
proof -
  have 1: "[it_message 1, it_error, it_message 2] =
      [it_message 1] @
      \<lparr>StreamNow = DeliverStream (0, Some (External ''transport is closing'')),
        ClosedAfterRecv = False\<rparr> # [it_message 2]"
    by (simp add: it_message_def it_error_def)
  have 2: "snd (Receive [it_message 1]) = Running"
    by (simp add: it_message_def deliverStream_def)
  have 3: "External ''transport is closing'' \<noteq> EOF"
    by simp
  note t = Receive_disconnected_event [of "[it_message 1, it_error, it_message 2]"
      "External ''transport is closing''"]
  from 1 2 3 have "\<exists>pre inp rest.
      [it_message 1, it_error, it_message 2] =
        pre @ \<lparr>StreamNow = DeliverStream (inp, Some (External ''transport is closing'')),
                ClosedAfterRecv = False\<rparr> # rest \<and>
      snd (Receive pre) = Running \<and> External ''transport is closing'' \<noteq> EOF"
    by blast
  with t have m: "ChanSend (DisconnectedEvent (External ''transport is closing'')) \<in>
     set (fst (Receive [it_message 1, it_error, it_message 2]))"
    by blast
  with t have "snd (Receive [it_message 1, it_error, it_message 2]) = Exited"
    by blast
  with m t show ?thesis by blast
qed

text \<open>
  C9: reads that return the messages \<open>ms\<close>, one a turn, followed by a read that returns
  end of stream with the connection not closed. The closed flag only goes from false to
  true, so the flags read in successive turns are sorted. The loop reads and forwards each
  message, in order and as read, reads once more, and exits: the events sent are the
  messages and nothing else, and the turns after the end of stream are not run.
\<close>

theorem Receive_forwards_in_order:
  assumes "length cls = length ms"
    and "sorted (cls @ [False])"
  shows "Receive (map (\<lambda>(m, cl). \<lparr>StreamNow = DeliverStream (m, None), ClosedAfterRecv = cl\<rparr>)
                    (zip ms cls) @
                  \<lparr>StreamNow = DeliverStream (x, Some EOF), ClosedAfterRecv = False\<rparr> # rest) =
           (concat (map (\<lambda>m. [StreamRecv, ChanSend (Message m)]) ms) @ [StreamRecv], Exited) \<and>
         events (fst (Receive
                  (map (\<lambda>(m, cl). \<lparr>StreamNow = DeliverStream (m, None), ClosedAfterRecv = cl\<rparr>)
                    (zip ms cls) @
                  \<lparr>StreamNow = DeliverStream (x, Some EOF), ClosedAfterRecv = False\<rparr> # rest))) =
           map Message ms"
proof -
  from assms(2) have "\<forall>c \<in> set cls. \<not> c"
    using sorted_False by blast
  with assms(1) have r: "Receive (map (\<lambda>(m, cl). \<lparr>StreamNow = DeliverStream (m, None), ClosedAfterRecv = cl\<rparr>)
                    (zip ms cls) @
                  \<lparr>StreamNow = DeliverStream (x, Some EOF), ClosedAfterRecv = False\<rparr> # rest) =
           (concat (map (\<lambda>m. [StreamRecv, ChanSend (Message m)]) ms) @ [StreamRecv], Exited)"
    by (simp add: Receive_messages Receive_EOF del: Receive.simps(2))
  have "events (concat (map (\<lambda>m. [StreamRecv, ChanSend (Message m)]) ms) @ [StreamRecv]) = map Message ms"
    by (induction ms) (simp_all add: events_append)
  with r show ?thesis by simp
qed

theorem Receive_forwards_in_order_witness:
  "length [False, False] = length [1, 2 :: nat] \<and> sorted ([False, False] @ [False]) \<and>
   Receive [it_message 1, it_message 2, it_EOF, it_message 3] =
     ([StreamRecv, ChanSend (Message 1), StreamRecv, ChanSend (Message 2), StreamRecv], Exited) \<and>
   events (fst (Receive [it_message 1, it_message 2, it_EOF, it_message 3])) =
     [Message 1, Message 2]"
proof -
  have 1: "length [False, False] = length [1, 2 :: nat]"
    by simp
  have 2: "sorted ([False, False] @ [False])"
    by simp
  have 3: "map (\<lambda>(m, cl). \<lparr>StreamNow = DeliverStream (m, None), ClosedAfterRecv = cl\<rparr>)
             (zip [1, 2 :: nat] [False, False]) @
           \<lparr>StreamNow = DeliverStream (0, Some EOF), ClosedAfterRecv = False\<rparr> # [it_message 3] =
           [it_message 1, it_message 2, it_EOF, it_message 3]"
    by (simp add: it_message_def it_EOF_def)
  have "Receive [it_message 1, it_message 2, it_EOF, it_message 3] =
     (concat (map (\<lambda>m. [StreamRecv, ChanSend (Message m)]) [1, 2]) @ [StreamRecv], Exited) \<and>
   events (fst (Receive [it_message 1, it_message 2, it_EOF, it_message 3])) =
     map Message [1, 2]"
    using Receive_forwards_in_order [OF 1 2, of 0 "[it_message 3]"] unfolding 3 .
  with 1 2 show ?thesis
    by (simp del: Receive.simps)
qed

section \<open>Send on a closed connection\<close>

text \<open>
  C5: on a connection whose closed flag is set, \<^verbatim>\<open>Send\<close> returns the error
  "connection is closed" at once: no collaborator is called, so no envelope is built and
  nothing is written to the stream.
\<close>

theorem Send_closed:
  "Closed c \<Longrightarrow> Send pc rnd c seekInfo = (Return (Some (New ''connection is closed'')), [])"
  by (simp add: Send_def)

theorem Send_closed_witness:
  "Closed (scenario_connection\<lparr>Closed := True\<rparr>) \<and>
   Send double (Inr [2, 3]) (scenario_connection\<lparr>Closed := True\<rparr>) (5, 10) =
     (Return (Some (New ''connection is closed'')), [])"
  using Send_closed [of "scenario_connection\<lparr>Closed := True\<rparr>" double "Inr [2, 3]" "(5, 10)"]
  by (simp add: scenario_connection_def)

section \<open>The envelope that Send writes\<close>




section \<open>Unwrapping a config envelope\<close>

text \<open>
  C7: when the parse of the envelope, of its payload, or of the config-update envelope
  fails, \<^verbatim>\<open>ExtractChannelConfig\<close> returns an error and no bytes: the parser's error
  wrapped with the message of that layer. The three messages differ, so the three failures
  can be told apart.
\<close>

theorem ExtractChannelConfig_layer_errors:
  "(Unmarshal_Envelope pc b = Inl e \<longrightarrow>
      ExtractChannelConfig pc b = Inl (Wrap e ''unmarshal config envelope failed'')) \<and>
   (Unmarshal_Envelope pc b = Inr envelope \<and>
    Unmarshal_Payload pc (Payload envelope) = Inl e \<longrightarrow>
      ExtractChannelConfig pc b = Inl (Wrap e ''unmarshal envelope payload failed'')) \<and>
   (Unmarshal_Envelope pc b = Inr envelope \<and>
    Unmarshal_Payload pc (Payload envelope) = Inr payload \<and>
    Unmarshal_ConfigUpdateEnvelope pc (Data payload) = Inl e \<longrightarrow>
      ExtractChannelConfig pc b = Inl (Wrap e ''unmarshal config update envelope'')) \<and>
   (\<forall>e1 e2 e3.
      Wrap e1 ''unmarshal config envelope failed'' \<noteq>
        Wrap e2 ''unmarshal envelope payload failed'' \<and>
      Wrap e1 ''unmarshal config envelope failed'' \<noteq>
        Wrap e3 ''unmarshal config update envelope'' \<and>
      Wrap e2 ''unmarshal envelope payload failed'' \<noteq>
        Wrap e3 ''unmarshal config update envelope'')"
  by (simp add: ExtractChannelConfig_def)

theorem ExtractChannelConfig_layer_errors_witness:
  "ExtractChannelConfig double [0xFF] =
     Inl (Wrap (External ''unexpected EOF'') ''unmarshal config envelope failed'') \<and>
   ExtractChannelConfig double [0x0A, 1, 0xFE] =
     Inl (Wrap (External ''unexpected EOF'') ''unmarshal envelope payload failed'') \<and>
   ExtractChannelConfig double [0x0A, 3, 0x12, 1, 0xFE] =
     Inl (Wrap (External ''unexpected EOF'') ''unmarshal config update envelope'')"
proof -
  have 1: "Unmarshal_Envelope double [0xFF] = Inl (External ''unexpected EOF'')"
    by (simp add: scenario_defs)
  have 2: "Unmarshal_Envelope double [0x0A, 1, 0xFE] = Inr \<lparr>Payload = [0xFE], Signature = []\<rparr>"
    by (simp add: scenario_defs)
  have 3: "Unmarshal_Payload double [0xFE] = Inl (External ''unexpected EOF'')"
    by (simp add: scenario_defs)
  have 4: "Unmarshal_Envelope double [0x0A, 3, 0x12, 1, 0xFE] =
      Inr \<lparr>Payload = [0x12, 1, 0xFE], Signature = []\<rparr>"
    by (simp add: scenario_defs)
  have 5: "Unmarshal_Payload double [0x12, 1, 0xFE] = Inr \<lparr>Header = None, Data = [0xFE]\<rparr>"
    by (simp add: scenario_defs)
  have 6: "Unmarshal_ConfigUpdateEnvelope double [0xFE] = Inl (External ''unexpected EOF'')"
    by (simp add: scenario_defs)
  from 1 ExtractChannelConfig_layer_errors [of double "[0xFF]" "External ''unexpected EOF''"]
  have a: "ExtractChannelConfig double [0xFF] =
     Inl (Wrap (External ''unexpected EOF'') ''unmarshal config envelope failed'')"
    by blast
  from 2 3 ExtractChannelConfig_layer_errors [of double "[0x0A, 1, 0xFE]"
      "External ''unexpected EOF''" "\<lparr>Payload = [0xFE], Signature = []\<rparr>"]
  have b: "ExtractChannelConfig double [0x0A, 1, 0xFE] =
     Inl (Wrap (External ''unexpected EOF'') ''unmarshal envelope payload failed'')"
    by simp
  from 4 5 6 ExtractChannelConfig_layer_errors [of double "[0x0A, 3, 0x12, 1, 0xFE]"
      "External ''unexpected EOF''" "\<lparr>Payload = [0x12, 1, 0xFE], Signature = []\<rparr>"
      "\<lparr>Header = None, Data = [0xFE]\<rparr>"]
  have c: "ExtractChannelConfig double [0x0A, 3, 0x12, 1, 0xFE] =
     Inl (Wrap (External ''unexpected EOF'') ''unmarshal config update envelope'')"
    by simp
  from a b c show ?thesis by blast
qed

text \<open>
  C8: a config-update envelope holding the bytes \<open>b\<close> is serialized to \<open>d\<close>, a payload
  with the data \<open>d\<close> is serialized to \<open>p\<close>, an envelope with the payload \<open>p\<close> is
  serialized to \<open>e\<close>, and each of the three parses back to what was serialized. Then
  \<^verbatim>\<open>ExtractChannelConfig\<close> on \<open>e\<close> returns exactly \<open>b\<close>.
\<close>

theorem ExtractChannelConfig_roundtrip:
  assumes "Marshal_ConfigUpdateEnvelope pc \<lparr>ConfigUpdate = b, Signatures = sigs\<rparr> = Inr d"
    and "Unmarshal_ConfigUpdateEnvelope pc d = Inr \<lparr>ConfigUpdate = b, Signatures = sigs\<rparr>"
    and "Marshal_Payload pc \<lparr>Header = h, Data = d\<rparr> = Inr p"
    and "Unmarshal_Payload pc p = Inr \<lparr>Header = h, Data = d\<rparr>"
    and "Marshal_Envelope pc \<lparr>Payload = p, Signature = s\<rparr> = Inr e"
    and "Unmarshal_Envelope pc e = Inr \<lparr>Payload = p, Signature = s\<rparr>"
  shows "ExtractChannelConfig pc e = Inr b"
  using assms by (simp add: ExtractChannelConfig_def)

theorem ExtractChannelConfig_roundtrip_witness:
  "Marshal_ConfigUpdateEnvelope double \<lparr>ConfigUpdate = [1, 2, 3], Signatures = []\<rparr> =
     Inr [0x0A, 3, 1, 2, 3] \<and>
   Marshal_Payload double \<lparr>Header = None, Data = [0x0A, 3, 1, 2, 3]\<rparr> =
     Inr [0x12, 5, 0x0A, 3, 1, 2, 3] \<and>
   Marshal_Envelope double \<lparr>Payload = [0x12, 5, 0x0A, 3, 1, 2, 3], Signature = []\<rparr> =
     Inr [0x0A, 7, 0x12, 5, 0x0A, 3, 1, 2, 3] \<and>
   ExtractChannelConfig double [0x0A, 7, 0x12, 5, 0x0A, 3, 1, 2, 3] = Inr [1, 2, 3]"
proof -
  have 1: "Marshal_ConfigUpdateEnvelope double \<lparr>ConfigUpdate = [1, 2, 3], Signatures = []\<rparr> =
     Inr [0x0A, 3, 1, 2, 3]"
    by (simp add: scenario_defs)
  have 2: "Unmarshal_ConfigUpdateEnvelope double [0x0A, 3, 1, 2, 3] =
     Inr \<lparr>ConfigUpdate = [1, 2, 3], Signatures = []\<rparr>"
    by (simp add: scenario_defs)
  have 3: "Marshal_Payload double \<lparr>Header = None, Data = [0x0A, 3, 1, 2, 3]\<rparr> =
     Inr [0x12, 5, 0x0A, 3, 1, 2, 3]"
    by (simp add: scenario_defs)
  have 4: "Unmarshal_Payload double [0x12, 5, 0x0A, 3, 1, 2, 3] =
     Inr \<lparr>Header = None, Data = [0x0A, 3, 1, 2, 3]\<rparr>"
    by (simp add: scenario_defs)
  have 5: "Marshal_Envelope double \<lparr>Payload = [0x12, 5, 0x0A, 3, 1, 2, 3], Signature = []\<rparr> =
     Inr [0x0A, 7, 0x12, 5, 0x0A, 3, 1, 2, 3]"
    by (simp add: scenario_defs)
  have 6: "Unmarshal_Envelope double [0x0A, 7, 0x12, 5, 0x0A, 3, 1, 2, 3] =
     Inr \<lparr>Payload = [0x12, 5, 0x0A, 3, 1, 2, 3], Signature = []\<rparr>"
    by (simp add: scenario_defs)
  from ExtractChannelConfig_roundtrip [OF 1 2 3 4 5 6] 1 3 5 show ?thesis
    by blast
qed

text \<open>
  C10: when the three parses succeed and the config-update envelope has no config update,
  \<^verbatim>\<open>ExtractChannelConfig\<close> returns success with the empty byte string: it does not check
  that a config update is present. So it does on the empty input, which a serializer that
  reads the empty byte string as the empty message parses at all three layers.
\<close>

theorem ExtractChannelConfig_no_validation:
  "(Unmarshal_Envelope pc b = Inr envelope \<and>
    Unmarshal_Payload pc (Payload envelope) = Inr payload \<and>
    Unmarshal_ConfigUpdateEnvelope pc (Data payload) = Inr configUpdateEnvelope \<and>
    ConfigUpdate configUpdateEnvelope = [] \<longrightarrow>
      ExtractChannelConfig pc b = Inr []) \<and>
   (Unmarshal_Envelope pc [] = Inr \<lparr>Payload = [], Signature = []\<rparr> \<and>
    Unmarshal_Payload pc [] = Inr \<lparr>Header = None, Data = []\<rparr> \<and>
    Unmarshal_ConfigUpdateEnvelope pc [] = Inr \<lparr>ConfigUpdate = [], Signatures = []\<rparr> \<longrightarrow>
      ExtractChannelConfig pc [] = Inr [])"
  by (simp add: ExtractChannelConfig_def)

theorem ExtractChannelConfig_no_validation_witness:
  "Unmarshal_Envelope double [] = Inr \<lparr>Payload = [], Signature = []\<rparr> \<and>
   Unmarshal_Payload double [] = Inr \<lparr>Header = None, Data = []\<rparr> \<and>
   Unmarshal_ConfigUpdateEnvelope double [] = Inr \<lparr>ConfigUpdate = [], Signatures = []\<rparr> \<and>
   ExtractChannelConfig double [] = Inr []"
proof -
  have 1: "Unmarshal_Envelope double [] = Inr \<lparr>Payload = [], Signature = []\<rparr>"
    by (simp add: scenario_defs)
  have 2: "Unmarshal_Payload double [] = Inr \<lparr>Header = None, Data = []\<rparr>"
    by (simp add: scenario_defs)
  have 3: "Unmarshal_ConfigUpdateEnvelope double [] = Inr \<lparr>ConfigUpdate = [], Signatures = []\<rparr>"
    by (simp add: scenario_defs)
  from 1 2 3 ExtractChannelConfig_no_validation [of double "[]"] show ?thesis
    by blast
qed

end
